theory Spec2Isabelle
  imports Complex_Main
begin

section \<open>Runtime values\<close>

text \<open>
  The checks receive inputs of type \<open>any\<close>. A value is a primitive or a reference to an
  object; the contents of objects live in a heap and are not part of the value. A finite
  number is given by its rational value (\<open>Finite 0\<close> is positive zero), the other numbers
  are constructors of their own.
\<close>

datatype jsnum = NaN | NegZero | Finite rat | PosInfinity | NegInfinity

type_synonym ref = nat

datatype jsval =
    JUndefined
  | JNull
  | JBoolean bool
  | JNumber jsnum
  | JBigInt int
  | JString string
  | JSymbol ref
  | JObject ref

type_synonym heap = "ref \<rightharpoonup> (string \<times> jsval) list"

text \<open>
  The operator \<open>===\<close> of the source language. On numbers: \<open>NaN\<close> equals nothing, itself
  included, and the two zeros equal each other. On everything else: same kind and same
  value, which for objects and symbols is the same reference.
\<close>

definition Number_equal :: "jsnum \<Rightarrow> jsnum \<Rightarrow> bool" where
  "Number_equal x y =
     (if x = NaN \<or> y = NaN then False
      else if x = y then True
      else (x = NegZero \<and> y = Finite 0) \<or> (x = Finite 0 \<and> y = NegZero))"

fun IsStrictlyEqual :: "jsval \<Rightarrow> jsval \<Rightarrow> bool" where
  "IsStrictlyEqual (JNumber x) (JNumber y) = Number_equal x y"
| "IsStrictlyEqual x y = (x = y)"

text \<open>
  \<open>Array.prototype.some\<close> on an array whose every index holds an element, as the array of a
  rest parameter is.
\<close>

fun Array_some :: "('a \<Rightarrow> bool) \<Rightarrow> 'a list \<Rightarrow> bool" where
  "Array_some callbackFn [] = False"
| "Array_some callbackFn (x # xs) = (if callbackFn x then True else Array_some callbackFn xs)"

text \<open>
  An array that a caller hands over may have holes: indices below its length that hold no
  element. Such an array is the list of its indices, \<open>None\<close> for a hole.
  \<open>Array.prototype.some\<close> calls the function on the elements that exist and passes over a
  hole; the iteration of \<open>for ... of\<close> visits every index and reads a hole as \<open>undefined\<close>.
\<close>

fun Array_some_sparse :: "('a \<Rightarrow> bool) \<Rightarrow> 'a option list \<Rightarrow> bool" where
  "Array_some_sparse callbackFn [] = False"
| "Array_some_sparse callbackFn (None # xs) = Array_some_sparse callbackFn xs"
| "Array_some_sparse callbackFn (Some x # xs) =
     (if callbackFn x then True else Array_some_sparse callbackFn xs)"

definition Array_iterated :: "jsval option \<Rightarrow> jsval" where
  "Array_iterated entry = (case entry of None \<Rightarrow> JUndefined | Some v \<Rightarrow> v)"

text \<open>The elements that an array holds, in order: the values that it lists.\<close>

fun Array_elements :: "'a option list \<Rightarrow> 'a list" where
  "Array_elements [] = []"
| "Array_elements (None # xs) = Array_elements xs"
| "Array_elements (Some x # xs) = x # Array_elements xs"

text \<open>\<open>String.prototype.includes\<close>: the search string occurs at some position.\<close>

fun String_includes :: "string \<Rightarrow> string \<Rightarrow> bool" where
  "String_includes [] searchString = (searchString = [])"
| "String_includes (c # cs) searchString =
     (take (length searchString) (c # cs) = searchString \<or> String_includes cs searchString)"

section \<open>The Type interface\<close>

text \<open>
  Modelled from the spec: the interface \<open>Type\<close> of \<open>runtime-types/type.ts\<close>, which the
  sources import and which is not among them. An implementation is the table of its four
  methods; by the descriptor contract they are pure and total: a check never throws, and
  it reads the heap without changing it, so that in a given heap it is a function of its
  input alone.
\<close>

record Type =
  getTypeName :: string
  checkConformity :: "jsval \<Rightarrow> bool"
  exhaustivelyCheckConformity :: "jsval \<Rightarrow> bool"
  isOptional :: bool

text \<open>
  Modelled from the spec: \<open>isOptional\<close> as inherited from the base class \<open>AbstractType\<close> of
  \<open>runtime-types/abstract-type.ts\<close>, which is not among the sources: false by default,
  overridden by the optional wrapper only.
\<close>

definition AbstractType_isOptional :: bool where
  "AbstractType_isOptional = False"

section \<open>UnionType\<close>

record UnionType =
  typeName :: string
  acceptableTypes :: "Type list"

text \<open>The loop of the constructor, with the name built so far as its state.\<close>

fun UnionType_typeName_loop :: "string \<Rightarrow> Type list \<Rightarrow> string" where
  "UnionType_typeName_loop name [] = name"
| "UnionType_typeName_loop name (t # types) =
     UnionType_typeName_loop
       ((if name \<noteq> '''' then name @ '' | '' else name) @ getTypeName t) types"

definition UnionType_new :: "Type list \<Rightarrow> UnionType" where
  "UnionType_new types =
     \<lparr>UnionType.typeName = UnionType_typeName_loop '''' types, acceptableTypes = types\<rparr>"

definition UnionType_getTypeName :: "UnionType \<Rightarrow> string" where
  "UnionType_getTypeName this = UnionType.typeName this"

definition UnionType_checkConformity :: "UnionType \<Rightarrow> jsval \<Rightarrow> bool" where
  "UnionType_checkConformity this input =
     Array_some (\<lambda>t. checkConformity t input) (acceptableTypes this)"

text \<open>The \<open>for ... of\<close> loop of the exhaustive check, with the flag \<open>once\<close> as its state.\<close>

fun UnionType_exhaustive_loop :: "jsval \<Rightarrow> bool \<Rightarrow> Type list \<Rightarrow> bool" where
  "UnionType_exhaustive_loop input once [] = once"
| "UnionType_exhaustive_loop input once (t # types) =
     (if checkConformity t input
      then (if once then False else UnionType_exhaustive_loop input True types)
      else UnionType_exhaustive_loop input once types)"

definition UnionType_exhaustivelyCheckConformity :: "UnionType \<Rightarrow> jsval \<Rightarrow> bool" where
  "UnionType_exhaustivelyCheckConformity this input =
     UnionType_exhaustive_loop input False (acceptableTypes this)"

text \<open>A union seen through the interface, as a member of another descriptor sees it.\<close>

definition UnionType_as_Type :: "UnionType \<Rightarrow> Type" where
  "UnionType_as_Type this =
     \<lparr>getTypeName = UnionType_getTypeName this,
      checkConformity = UnionType_checkConformity this,
      exhaustivelyCheckConformity = UnionType_exhaustivelyCheckConformity this,
      isOptional = AbstractType_isOptional\<rparr>"

section \<open>OptionalType\<close>

record OptionalType =
  typeName :: string
  encapsulatedType :: Type

definition OptionalType_new :: "Type \<Rightarrow> OptionalType" where
  "OptionalType_new t =
     (let encapsulatedTypeName = getTypeName t;
          doesTypeNameHaveSpaces = String_includes encapsulatedTypeName '' '';
          encapsulatedTypeName =
            (if doesTypeNameHaveSpaces then ''('' @ encapsulatedTypeName @ '')''
             else encapsulatedTypeName)
      in \<lparr>OptionalType.typeName = encapsulatedTypeName @ ''?'', encapsulatedType = t\<rparr>)"

definition OptionalType_isOptional :: "OptionalType \<Rightarrow> bool" where
  "OptionalType_isOptional this = True"

definition OptionalType_getTypeName :: "OptionalType \<Rightarrow> string" where
  "OptionalType_getTypeName this = OptionalType.typeName this"

definition OptionalType_getEncapsulatedType :: "OptionalType \<Rightarrow> Type" where
  "OptionalType_getEncapsulatedType this = encapsulatedType this"

definition OptionalType_checkConformity :: "OptionalType \<Rightarrow> jsval \<Rightarrow> bool" where
  "OptionalType_checkConformity this input =
     checkConformity (OptionalType_getEncapsulatedType this) input"

definition OptionalType_exhaustivelyCheckConformity :: "OptionalType \<Rightarrow> jsval \<Rightarrow> bool" where
  "OptionalType_exhaustivelyCheckConformity this input =
     exhaustivelyCheckConformity (OptionalType_getEncapsulatedType this) input"

definition OptionalType_as_Type :: "OptionalType \<Rightarrow> Type" where
  "OptionalType_as_Type this =
     \<lparr>getTypeName = OptionalType_getTypeName this,
      checkConformity = OptionalType_checkConformity this,
      exhaustivelyCheckConformity = OptionalType_exhaustivelyCheckConformity this,
      isOptional = OptionalType_isOptional this\<rparr>"

section \<open>EnumType\<close>

text \<open>The constructor keeps the array of the caller as it is, holes included.\<close>

record EnumType =
  typeName :: string
  acceptableValues :: "jsval option list"

text \<open>The second argument of the constructor is optional: \<open>None\<close> is an omitted name.\<close>

definition EnumType_new :: "jsval option list \<Rightarrow> string option \<Rightarrow> EnumType" where
  "EnumType_new values name =
     \<lparr>EnumType.typeName = (case name of Some n \<Rightarrow> n | None \<Rightarrow> ''enum''),
      acceptableValues = values\<rparr>"

definition EnumType_getTypeName :: "EnumType \<Rightarrow> string" where
  "EnumType_getTypeName this = EnumType.typeName this"

definition EnumType_checkConformity :: "EnumType \<Rightarrow> jsval \<Rightarrow> bool" where
  "EnumType_checkConformity this input =
     Array_some_sparse (\<lambda>v. IsStrictlyEqual v input) (acceptableValues this)"

fun EnumType_exhaustive_loop :: "jsval \<Rightarrow> bool \<Rightarrow> jsval option list \<Rightarrow> bool" where
  "EnumType_exhaustive_loop input once [] = once"
| "EnumType_exhaustive_loop input once (entry # values) =
     (if IsStrictlyEqual (Array_iterated entry) input
      then (if once then False else EnumType_exhaustive_loop input True values)
      else EnumType_exhaustive_loop input once values)"

definition EnumType_exhaustivelyCheckConformity :: "EnumType \<Rightarrow> jsval \<Rightarrow> bool" where
  "EnumType_exhaustivelyCheckConformity this input =
     EnumType_exhaustive_loop input False (acceptableValues this)"

definition EnumType_as_Type :: "EnumType \<Rightarrow> Type" where
  "EnumType_as_Type this =
     \<lparr>getTypeName = EnumType_getTypeName this,
      checkConformity = EnumType_checkConformity this,
      exhaustivelyCheckConformity = EnumType_exhaustivelyCheckConformity this,
      isOptional = AbstractType_isOptional\<rparr>"

section \<open>MalformedObjectError\<close>

text \<open>
  The path of an error is an array that the error shares with whoever built it, and
  \<open>prependPath\<close> pushes onto an array. Arrays of strings therefore live in a store, an
  error holds the reference of its path, and every operation takes the store and returns
  it. \<open>nextRef\<close> is the reference that the next new array gets.
\<close>

record store =
  arrays :: "ref \<rightharpoonup> string list"
  nextRef :: ref

record MalformedObjectError =
  path :: ref
  readablePath :: string
  expectedType :: Type
  actualType :: Type
  actualValue :: jsval

text \<open>A new array with the given elements, as a rest parameter makes one at each call.\<close>

definition Array_new :: "store \<Rightarrow> string list \<Rightarrow> store \<times> ref" where
  "Array_new s items =
     (s\<lparr>arrays := (arrays s)(nextRef s \<mapsto> items), nextRef := Suc (nextRef s)\<rparr>, nextRef s)"

text \<open>\<open>Array.prototype.push\<close>; \<open>None\<close> where the reference names no array of the store.\<close>

definition Array_push :: "store \<Rightarrow> ref \<Rightarrow> string list \<Rightarrow> store option" where
  "Array_push s r items =
     (case arrays s r of
        None \<Rightarrow> None
      | Some xs \<Rightarrow> Some (s\<lparr>arrays := (arrays s)(r \<mapsto> xs @ items)\<rparr>))"

fun readablePath_loop :: "string \<Rightarrow> string list \<Rightarrow> string" where
  "readablePath_loop acc [] = acc"
| "readablePath_loop acc (pathItem # rest) = readablePath_loop (acc @ ''.'' @ pathItem) rest"

text \<open>
  Modelled from the spec: the value inferer \<open>TypeInferer.infer\<close>, which the constructor
  calls for its default argument and which is not among the sources; a pure total function
  from values to descriptors, taken as the parameter \<open>infer\<close>. The fourth argument of the
  constructor is optional: \<open>None\<close> is an omitted actual type.
\<close>

definition MalformedObjectError_new ::
  "(jsval \<Rightarrow> Type) \<Rightarrow> store \<Rightarrow> ref \<Rightarrow> Type \<Rightarrow> jsval \<Rightarrow> Type option
     \<Rightarrow> MalformedObjectError option" where
  "MalformedObjectError_new infer s p expected val actual =
     (case arrays s p of
        None \<Rightarrow> None
      | Some items \<Rightarrow>
          Some \<lparr>path = p,
                readablePath = readablePath_loop ''*'' items,
                expectedType = expected,
                actualType = (case actual of Some t \<Rightarrow> t | None \<Rightarrow> infer val),
                actualValue = val\<rparr>)"

definition MalformedObjectError_prependPath ::
  "(jsval \<Rightarrow> Type) \<Rightarrow> store \<Rightarrow> MalformedObjectError \<Rightarrow> string list
     \<Rightarrow> (store \<times> MalformedObjectError) option" where
  "MalformedObjectError_prependPath infer s this segments =
     (case Array_new s segments of
        (s1, p) \<Rightarrow>
          (case arrays s1 (path this) of
             None \<Rightarrow> None
           | Some thisPath \<Rightarrow>
               (case Array_push s1 p thisPath of
                  None \<Rightarrow> None
                | Some s2 \<Rightarrow>
                    (case MalformedObjectError_new infer s2 p (expectedType this)
                            (actualValue this) None of
                       None \<Rightarrow> None
                     | Some e \<Rightarrow> Some (s2, e)))))"

text \<open>
  A store is well formed when every array of it has a reference below \<open>nextRef\<close>, so that
  a new array never takes the place of an old one.
\<close>

definition store_wf :: "store \<Rightarrow> bool" where
  "store_wf s = (\<forall>r. r \<in> dom (arrays s) \<longrightarrow> r < nextRef s)"

section \<open>Joining names\<close>

text \<open>
  The name of a union as the specification words it: the names of the members with
  \<open>" | "\<close> between neighbours, which is \<open>Array.prototype.join\<close>.
\<close>

fun join :: "string \<Rightarrow> string list \<Rightarrow> string" where
  "join sep [] = ''''"
| "join sep [x] = x"
| "join sep (x # y # ys) = x @ sep @ join sep (y # ys)"

section \<open>Descriptors of the examples\<close>

text \<open>
  Two enumerated descriptors seen through the interface, \<open>A\<close> that accepts \<open>"a"\<close> and \<open>1\<close>
  and \<open>B C\<close> that accepts \<open>1\<close> and \<open>true\<close>, and the union of no members, whose name is
  empty.
\<close>

abbreviation Type_A :: Type where
  "Type_A \<equiv>
     EnumType_as_Type
       (EnumType_new [Some (JString ''a''), Some (JNumber (Finite 1))] (Some ''A''))"

abbreviation Type_B_C :: Type where
  "Type_B_C \<equiv>
     EnumType_as_Type
       (EnumType_new [Some (JNumber (Finite 1)), Some (JBoolean True)] (Some ''B C''))"

abbreviation Type_empty_union :: Type where
  "Type_empty_union \<equiv> UnionType_as_Type (UnionType_new [])"

text \<open>
  For the errors: an inferer that answers the unnamed enumeration of the value alone, a
  descriptor named \<open>void\<close>, and a store whose one array is \<open>["b"]\<close>.
\<close>

abbreviation infer_singleton :: "jsval \<Rightarrow> Type" where
  "infer_singleton \<equiv> \<lambda>v. EnumType_as_Type (EnumType_new [Some v] None)"

abbreviation Type_void :: Type where
  "Type_void \<equiv> EnumType_as_Type (EnumType_new [] (Some ''void''))"

abbreviation store_b :: store where
  "store_b \<equiv> \<lparr>arrays = [0 \<mapsto> [''b'']], nextRef = 1\<rparr>"

section \<open>Strict equality, arrays and strings\<close>

lemma IsStrictlyEqual_sym: "IsStrictlyEqual x y = IsStrictlyEqual y x"
  by (cases x; cases y) (auto simp: Number_equal_def)

lemma IsStrictlyEqual_refl: "IsStrictlyEqual x x \<longleftrightarrow> x \<noteq> JNumber NaN"
  by (cases x) (auto simp: Number_equal_def)

lemma IsStrictlyEqual_NaN: "\<not> IsStrictlyEqual v (JNumber NaN)"
  by (cases v) (auto simp: Number_equal_def)

lemma IsStrictlyEqual_undefined: "IsStrictlyEqual JUndefined x \<longleftrightarrow> x = JUndefined"
  by (cases x) auto

lemma Array_some_iff: "Array_some p xs \<longleftrightarrow> (\<exists>x\<in>set xs. p x)"
  by (induction xs) auto

lemma Array_some_sparse_iff:
  "Array_some_sparse p xs \<longleftrightarrow> (\<exists>x\<in>set (Array_elements xs). p x)"
  by (induction p xs rule: Array_some_sparse.induct) auto

lemma Array_elements_no_holes:
  "None \<notin> set xs \<Longrightarrow> map Array_iterated xs = Array_elements xs"
  by (induction xs rule: Array_elements.induct) (auto simp: Array_iterated_def)

text \<open>
  Against an input other than \<open>undefined\<close> the iteration finds the matches among the
  elements and no others; against any input it finds at least those.
\<close>

lemma iterated_matches_defined:
  "x \<noteq> JUndefined \<Longrightarrow>
     filter (\<lambda>v. IsStrictlyEqual v x) (map Array_iterated xs) =
     filter (\<lambda>v. IsStrictlyEqual v x) (Array_elements xs)"
  by (induction xs rule: Array_elements.induct)
     (auto simp: Array_iterated_def IsStrictlyEqual_undefined)

lemma elements_matches_le_iterated:
  "length (filter p (Array_elements xs)) \<le> length (filter p (map Array_iterated xs))"
  by (induction xs rule: Array_elements.induct) (auto simp: Array_iterated_def)

lemma String_includes_char: "String_includes s [c] \<longleftrightarrow> c \<in> set s"
  by (induction s) auto

lemmas eval_defs =
  EnumType_as_Type_def EnumType_new_def EnumType_checkConformity_def
  EnumType_exhaustivelyCheckConformity_def EnumType_getTypeName_def
  UnionType_as_Type_def UnionType_new_def UnionType_checkConformity_def
  UnionType_exhaustivelyCheckConformity_def UnionType_getTypeName_def
  OptionalType_as_Type_def OptionalType_new_def OptionalType_checkConformity_def
  OptionalType_exhaustivelyCheckConformity_def OptionalType_getTypeName_def
  OptionalType_getEncapsulatedType_def OptionalType_isOptional_def
  AbstractType_isOptional_def Number_equal_def Array_iterated_def

section \<open>The loops of the exhaustive checks\<close>

text \<open>
  Each loop answers true exactly when the matches it has yet to see, and the one it may
  have seen already, are one in all.
\<close>

lemma UnionType_exhaustive_loop_count:
  "UnionType_exhaustive_loop input once types \<longleftrightarrow>
     length (filter (\<lambda>t. checkConformity t input) types) + (if once then 1 else 0) = 1"
  by (induction types arbitrary: once) auto

lemma EnumType_exhaustive_loop_count:
  "EnumType_exhaustive_loop input once vs \<longleftrightarrow>
     length (filter (\<lambda>v. IsStrictlyEqual v input) (map Array_iterated vs)) +
       (if once then 1 else 0) = 1"
  by (induction vs arbitrary: once) auto

lemma count_list_le_strict_matches:
  "IsStrictlyEqual a a \<Longrightarrow>
     count_list vs a \<le> length (filter (\<lambda>v. IsStrictlyEqual v a) vs)"
  by (induction vs) auto

section \<open>The name of a union\<close>

lemma UnionType_typeName_loop_nonempty:
  "name \<noteq> '''' \<Longrightarrow>
     UnionType_typeName_loop name types =
       name @ concat (map (\<lambda>t. '' | '' @ getTypeName t) types)"
  by (induction types arbitrary: name) auto

lemma join_Cons: "join sep (x # xs) = x @ concat (map (\<lambda>y. sep @ y) xs)"
  by (induction xs arbitrary: x) auto

text \<open>
  The constructor writes the separator only once the name built so far is not empty, so
  members with an empty name at the front of the list leave no trace in the name.
\<close>

lemma UnionType_typeName_loop_dropWhile:
  "UnionType_typeName_loop '''' types =
     join '' | '' (dropWhile (\<lambda>n. n = '''') (map getTypeName types))"
proof (induction types)
  case Nil
  show ?case by simp
next
  case (Cons t types)
  show ?case
  proof (cases "getTypeName t = ''''")
    case True
    with Cons show ?thesis by simp
  next
    case False
    then show ?thesis
      by (simp add: UnionType_typeName_loop_nonempty join_Cons map_concat comp_def)
  qed
qed

section \<open>Errors and their paths\<close>

lemma store_wf_allocated: "store_wf s \<Longrightarrow> arrays s r = Some xs \<Longrightarrow> r < nextRef s"
  by (auto simp: store_wf_def)

text \<open>An error built without an actual type carries the inferred one.\<close>

lemma MalformedObjectError_new_default:
  "MalformedObjectError_new infer s p expected val None = Some F \<Longrightarrow>
     actualType F = infer (actualValue F)"
  by (auto simp: MalformedObjectError_new_def split: option.splits)

text \<open>
  What \<open>prependPath\<close> does on a well-formed store to an error whose path is an array of
  the store: it succeeds; the path of the result is a new array holding the segments
  followed by the old path; no array that was there before changes, the old path among
  them; the expected type and the actual value are those of the old error; and the actual
  type is the inferred type of the actual value, whatever the old error carried.
\<close>

lemma prependPath_result:
  assumes wf: "store_wf s" and p: "arrays s (path F) = Some ps"
  shows "\<exists>s' F'. MalformedObjectError_prependPath infer s F segments = Some (s', F') \<and>
           path F' = nextRef s \<and> path F' \<noteq> path F \<and>
           arrays s' (path F') = Some (segments @ ps) \<and>
           (\<forall>r. r \<noteq> nextRef s \<longrightarrow> arrays s' r = arrays s r) \<and>
           arrays s' (path F) = Some ps \<and>
           readablePath F' = readablePath_loop ''*'' (segments @ ps) \<and>
           expectedType F' = expectedType F \<and>
           actualValue F' = actualValue F \<and>
           actualType F' = infer (actualValue F) \<and>
           store_wf s'"
proof -
  from store_wf_allocated [OF wf p] have lt: "path F < nextRef s" .
  then have ne: "path F \<noteq> nextRef s" by simp
  from wf have wf': "\<And>r xs. arrays s r = Some xs \<Longrightarrow> r < Suc (nextRef s)"
    by (auto simp: store_wf_def less_Suc_eq)
  show ?thesis
    using ne p wf'
    by (auto simp: MalformedObjectError_prependPath_def Array_new_def Array_push_def
        MalformedObjectError_new_def store_wf_def split: if_splits)
qed

text \<open>The store of the examples is well formed and holds the path \<open>["b"]\<close>.\<close>

lemma store_b_wf: "store_wf store_b \<and> arrays store_b 0 = Some [''b'']"
  by (simp add: store_wf_def)

section \<open>The claims\<close>

subsection \<open>MalformedObjectError\<close>

text \<open>
  C1. For every error \<open>F\<close> and all segments \<open>s\<close>, \<open>F.prependPath(s)\<close> is a new error whose
  path is \<open>s\<close> followed by the path of \<open>F\<close> and whose expected type, actual type and actual
  value are those of \<open>F\<close>, while \<open>F\<close> and its path stay as they were. \<open>prependPath\<close> calls
  the constructor without the actual type, so the result carries the inferred type of the
  value instead. On the error for a missing value with the path \<open>["b"]\<close> and the explicit
  actual type \<open>void\<close>, prepending \<open>"a"\<close> gives the path \<open>["a", "b"]\<close>, leaves the old path
  alone and keeps the expected type and the value, but the actual type \<open>void\<close> has become the
  inferred \<open>enum\<close>.
\<close>

theorem prependPath_reinfers_actualType:
  "(case MalformedObjectError_new infer_singleton store_b 0 Type_A JUndefined (Some Type_void) of
      None \<Rightarrow> False
    | Some F \<Rightarrow>
        (case MalformedObjectError_prependPath infer_singleton store_b F [''a''] of
           None \<Rightarrow> False
         | Some (s', F') \<Rightarrow>
             arrays s' (path F') = Some [''a'', ''b''] \<and>
             arrays s' (path F) = Some [''b''] \<and>
             expectedType F' = expectedType F \<and>
             actualValue F' = actualValue F \<and>
             getTypeName (actualType F) = ''void'' \<and>
             getTypeName (actualType F') = ''enum'' \<and>
             actualType F' \<noteq> actualType F))"
  by (simp add: MalformedObjectError_new_def MalformedObjectError_prependPath_def
      Array_new_def Array_push_def EnumType_as_Type_def EnumType_new_def
      EnumType_getTypeName_def)

subsection \<open>UnionType\<close>

text \<open>
  C2. For every union \<open>U\<close> and every input \<open>x\<close>, the exhaustive check of \<open>U\<close> on \<open>x\<close> is true
  if and only if exactly one member of \<open>U\<close> has a true check on \<open>x\<close>; in particular it is
  false when two or more members match. Members are counted by position.
\<close>

theorem UnionType_exhaustivelyCheckConformity_iff:
  "(UnionType_exhaustivelyCheckConformity U x \<longleftrightarrow>
      length (filter (\<lambda>m. checkConformity m x) (acceptableTypes U)) = 1) \<and>
   (2 \<le> length (filter (\<lambda>m. checkConformity m x) (acceptableTypes U)) \<longrightarrow>
      \<not> UnionType_exhaustivelyCheckConformity U x)"
  by (simp add: UnionType_exhaustivelyCheckConformity_def UnionType_exhaustive_loop_count)

theorem UnionType_exhaustivelyCheckConformity_iff_witness:
  "2 \<le> length (filter (\<lambda>m. checkConformity m (JNumber (Finite 1)))
           (acceptableTypes (UnionType_new [Type_A, Type_B_C]))) \<and>
   \<not> UnionType_exhaustivelyCheckConformity (UnionType_new [Type_A, Type_B_C]) (JNumber (Finite 1)) \<and>
   length (filter (\<lambda>m. checkConformity m (JString ''a''))
           (acceptableTypes (UnionType_new [Type_A, Type_B_C]))) = 1 \<and>
   UnionType_exhaustivelyCheckConformity (UnionType_new [Type_A, Type_B_C]) (JString ''a'')"
proof -
  have two: "2 \<le> length (filter (\<lambda>m. checkConformity m (JNumber (Finite 1)))
           (acceptableTypes (UnionType_new [Type_A, Type_B_C])))"
    by (simp add: eval_defs)
  have one: "length (filter (\<lambda>m. checkConformity m (JString ''a''))
           (acceptableTypes (UnionType_new [Type_A, Type_B_C]))) = 1"
    by (simp add: eval_defs)
  show ?thesis
    using two one
      UnionType_exhaustivelyCheckConformity_iff [of "UnionType_new [Type_A, Type_B_C]" "JNumber (Finite 1)"]
      UnionType_exhaustivelyCheckConformity_iff [of "UnionType_new [Type_A, Type_B_C]" "JString ''a''"]
    by blast
qed

text \<open>
  C5. For every union \<open>U\<close> with at least one member and every input \<open>x\<close>, the check of \<open>U\<close>
  on \<open>x\<close> is true if and only if the check of at least one member on \<open>x\<close> is true.
\<close>

theorem UnionType_checkConformity_iff:
  "acceptableTypes U \<noteq> [] \<Longrightarrow>
     UnionType_checkConformity U x \<longleftrightarrow> (\<exists>m\<in>set (acceptableTypes U). checkConformity m x)"
  by (simp add: UnionType_checkConformity_def Array_some_iff)

theorem UnionType_checkConformity_iff_witness:
  "acceptableTypes (UnionType_new [Type_A, Type_B_C]) \<noteq> [] \<and>
   UnionType_checkConformity (UnionType_new [Type_A, Type_B_C]) (JBoolean True) \<and>
   (\<exists>m\<in>set (acceptableTypes (UnionType_new [Type_A, Type_B_C])). checkConformity m (JBoolean True))"
proof -
  have h: "acceptableTypes (UnionType_new [Type_A, Type_B_C]) \<noteq> []"
    by (simp add: UnionType_new_def)
  have m: "\<exists>m\<in>set (acceptableTypes (UnionType_new [Type_A, Type_B_C])). checkConformity m (JBoolean True)"
    by (simp add: eval_defs)
  show ?thesis
    using h m UnionType_checkConformity_iff [OF h, of "JBoolean True"] by simp
qed

text \<open>
  C8, as worded: the name of every union is the names of its members joined with
  \<open>" | "\<close> in the order of declaration. It fails for the union of the empty union, whose
  name is empty, and the member \<open>A\<close>: the join is \<open>" | A"\<close>, the name is \<open>"A"\<close>.
\<close>

theorem UnionType_name_counterexample:
  "UnionType_getTypeName (UnionType_new [Type_empty_union, Type_A]) = ''A'' \<and>
   join '' | '' (map getTypeName [Type_empty_union, Type_A]) = '' | A'' \<and>
   UnionType_getTypeName (UnionType_new [Type_empty_union, Type_A]) \<noteq>
     join '' | '' (map getTypeName [Type_empty_union, Type_A])"
  by (simp add: eval_defs)

text \<open>
  C8, amended. For every union whose first member, if it has one, has a name that is not
  empty, the name is the names of the members joined with \<open>" | "\<close> in the order of
  declaration, nothing dropped and nothing sorted; the members \<open>A\<close> and \<open>B C\<close> give
  \<open>"A | B C"\<close>.
\<close>

theorem UnionType_name_join:
  "(case types of [] \<Rightarrow> True | t # _ \<Rightarrow> getTypeName t \<noteq> '''') \<Longrightarrow>
     UnionType_getTypeName (UnionType_new types) = join '' | '' (map getTypeName types)"
  by (cases types)
     (simp_all add: UnionType_getTypeName_def UnionType_new_def
        UnionType_typeName_loop_nonempty join_Cons comp_def)

theorem UnionType_name_join_witness:
  "(case [Type_A, Type_B_C] of [] \<Rightarrow> True | t # _ \<Rightarrow> getTypeName t \<noteq> '''') \<and>
   UnionType_getTypeName (UnionType_new [Type_A, Type_B_C]) = ''A | B C''"
proof -
  have h: "case [Type_A, Type_B_C] of [] \<Rightarrow> True | t # _ \<Rightarrow> getTypeName t \<noteq> ''''"
    by (simp add: eval_defs)
  show ?thesis
    using h UnionType_name_join [OF h] by (simp add: eval_defs)
qed

text \<open>
  C9. For the union built from no members and every input \<open>x\<close>, the check and the
  exhaustive check on \<open>x\<close> are both false.
\<close>

theorem UnionType_empty_never_conforms:
  "\<not> UnionType_checkConformity (UnionType_new []) x \<and>
   \<not> UnionType_exhaustivelyCheckConformity (UnionType_new []) x"
  by (simp add: UnionType_new_def UnionType_checkConformity_def
      UnionType_exhaustivelyCheckConformity_def)

subsection \<open>OptionalType\<close>

text \<open>
  C4. For every descriptor \<open>T\<close> and every input \<open>v\<close>, the undefined value included, the
  check of the optional wrapper of \<open>T\<close> on \<open>v\<close> is the check of \<open>T\<close> on \<open>v\<close>, and the
  exhaustive check of the wrapper is the exhaustive check of \<open>T\<close>.
\<close>

theorem OptionalType_delegates:
  "OptionalType_checkConformity (OptionalType_new T) v = checkConformity T v \<and>
   OptionalType_exhaustivelyCheckConformity (OptionalType_new T) v = exhaustivelyCheckConformity T v \<and>
   OptionalType_checkConformity (OptionalType_new T) JUndefined = checkConformity T JUndefined \<and>
   OptionalType_exhaustivelyCheckConformity (OptionalType_new T) JUndefined =
     exhaustivelyCheckConformity T JUndefined"
  by (simp add: OptionalType_new_def OptionalType_checkConformity_def
      OptionalType_exhaustivelyCheckConformity_def OptionalType_getEncapsulatedType_def Let_def)

text \<open>
  C7. The name of the optional wrapper of \<open>T\<close> is the name of \<open>T\<close>, in parentheses exactly
  when it contains a space, followed by \<open>"?"\<close>: the name \<open>A\<close> gives \<open>"A?"\<close> and the name \<open>B C\<close>
  gives \<open>"(B C)?"\<close>. Every optional wrapper answers true to \<open>isOptional\<close>.
\<close>

theorem OptionalType_name_and_optionality:
  "OptionalType_getTypeName (OptionalType_new T) =
     (if CHR '' '' \<in> set (getTypeName T) then ''('' @ getTypeName T @ '')'' else getTypeName T) @ ''?'' \<and>
   OptionalType_getTypeName (OptionalType_new (T\<lparr>getTypeName := ''A''\<rparr>)) = ''A?'' \<and>
   OptionalType_getTypeName (OptionalType_new (T\<lparr>getTypeName := ''B C''\<rparr>)) = ''(B C)?'' \<and>
   OptionalType_isOptional O'"
  by (simp add: OptionalType_new_def OptionalType_getTypeName_def OptionalType_isOptional_def
      String_includes_char Let_def)

subsection \<open>EnumType\<close>

text \<open>
  C3, as worded: whenever the list of acceptable values holds a value \<open>a\<close> twice, as the
  list \<open>[a, a]\<close> does, the exhaustive check on \<open>a\<close> is false and the check on \<open>a\<close> is true;
  and the exhaustive check on \<open>x\<close> is true if and only if exactly one entry of the list is
  strictly equal to \<open>x\<close>. The first part fails for \<open>NaN\<close>, which is strictly equal to
  nothing: the check of the list \<open>[NaN, NaN]\<close> on \<open>NaN\<close> is false. The second part fails
  on an array with a hole: the exhaustive check of \<open>[ , "a"]\<close> on \<open>undefined\<close> is true, and
  the one value that the array lists, \<open>"a"\<close>, is not strictly equal to \<open>undefined\<close>.
\<close>

theorem EnumType_NaN_and_hole_counterexample:
  "\<not> EnumType_checkConformity (EnumType_new [Some (JNumber NaN), Some (JNumber NaN)] None)
       (JNumber NaN) \<and>
   EnumType_exhaustivelyCheckConformity (EnumType_new [None, Some (JString ''a'')] None)
     JUndefined \<and>
   Array_elements (acceptableValues (EnumType_new [None, Some (JString ''a'')] None)) =
     [JString ''a''] \<and>
   \<not> IsStrictlyEqual (JString ''a'') JUndefined"
  by (simp add: eval_defs)

text \<open>
  C3, amended. Whenever the list of acceptable values holds a value \<open>a\<close> twice, the
  exhaustive check on \<open>a\<close> is false, and the check on \<open>a\<close> is true exactly when \<open>a\<close> is not
  \<open>NaN\<close>. Whenever the array has no holes or the input \<open>x\<close> is not \<open>undefined\<close>, the
  exhaustive check on \<open>x\<close> is true if and only if exactly one entry of the list is strictly
  equal to \<open>x\<close>. The list is the elements that the array holds.
\<close>

theorem EnumType_exhaustivelyCheckConformity_iff:
  "(2 \<le> count_list (Array_elements (acceptableValues D)) a \<longrightarrow>
      \<not> EnumType_exhaustivelyCheckConformity D a \<and>
      (EnumType_checkConformity D a \<longleftrightarrow> a \<noteq> JNumber NaN)) \<and>
   (None \<notin> set (acceptableValues D) \<or> x \<noteq> JUndefined \<longrightarrow>
      (EnumType_exhaustivelyCheckConformity D x \<longleftrightarrow>
         length (filter (\<lambda>v. IsStrictlyEqual v x) (Array_elements (acceptableValues D))) = 1))"
proof -
  have iterated: "EnumType_exhaustivelyCheckConformity D y \<longleftrightarrow>
      length (filter (\<lambda>v. IsStrictlyEqual v y) (map Array_iterated (acceptableValues D))) = 1"
    for y
    by (simp add: EnumType_exhaustivelyCheckConformity_def EnumType_exhaustive_loop_count)
  have general: "EnumType_exhaustivelyCheckConformity D x \<longleftrightarrow>
      length (filter (\<lambda>v. IsStrictlyEqual v x) (Array_elements (acceptableValues D))) = 1"
    if "None \<notin> set (acceptableValues D) \<or> x \<noteq> JUndefined"
    using that
  proof
    assume "None \<notin> set (acceptableValues D)"
    then show ?thesis
      by (simp add: iterated Array_elements_no_holes)
  next
    assume "x \<noteq> JUndefined"
    then show ?thesis
      by (simp add: iterated iterated_matches_defined)
  qed
  have dup: "\<not> EnumType_exhaustivelyCheckConformity D a \<and>
      (EnumType_checkConformity D a \<longleftrightarrow> a \<noteq> JNumber NaN)"
    if twice: "2 \<le> count_list (Array_elements (acceptableValues D)) a"
  proof (cases "a = JNumber NaN")
    case True
    have "filter (\<lambda>v. IsStrictlyEqual v (JNumber NaN)) (map Array_iterated (acceptableValues D))
        = []"
      by (simp add: IsStrictlyEqual_NaN)
    with True show ?thesis
      by (simp add: iterated EnumType_checkConformity_def Array_some_sparse_iff
          IsStrictlyEqual_NaN)
  next
    case False
    then have refl: "IsStrictlyEqual a a"
      by (simp add: IsStrictlyEqual_refl)
    from twice count_list_le_strict_matches [OF refl, of "Array_elements (acceptableValues D)"]
    have "2 \<le> length (filter (\<lambda>v. IsStrictlyEqual v a) (Array_elements (acceptableValues D)))"
      by simp
    with elements_matches_le_iterated [of "\<lambda>v. IsStrictlyEqual v a" "acceptableValues D"]
    have "2 \<le> length (filter (\<lambda>v. IsStrictlyEqual v a)
        (map Array_iterated (acceptableValues D)))"
      by simp
    then have no: "\<not> EnumType_exhaustivelyCheckConformity D a"
      by (simp add: iterated)
    from twice have "a \<in> set (Array_elements (acceptableValues D))"
      by (metis count_list_0_iff not_numeral_le_zero)
    with refl have "EnumType_checkConformity D a"
      by (auto simp: EnumType_checkConformity_def Array_some_sparse_iff)
    with no False show ?thesis by simp
  qed
  from general dup show ?thesis by blast
qed

theorem EnumType_exhaustivelyCheckConformity_iff_witness:
  "2 \<le> count_list
      (Array_elements
        (acceptableValues (EnumType_new [Some (JString ''a''), Some (JString ''a'')] None)))
      (JString ''a'') \<and>
   \<not> EnumType_exhaustivelyCheckConformity
       (EnumType_new [Some (JString ''a''), Some (JString ''a'')] None) (JString ''a'') \<and>
   EnumType_checkConformity
     (EnumType_new [Some (JString ''a''), Some (JString ''a'')] None) (JString ''a'') \<and>
   JString ''a'' \<noteq> JUndefined \<and>
   EnumType_exhaustivelyCheckConformity
     (EnumType_new [None, Some (JString ''a'')] None) (JString ''a'') \<and>
   None \<notin> set (acceptableValues (EnumType_new [Some JUndefined] None)) \<and>
   EnumType_exhaustivelyCheckConformity (EnumType_new [Some JUndefined] None) JUndefined"
proof -
  have twice: "2 \<le> count_list
      (Array_elements
        (acceptableValues (EnumType_new [Some (JString ''a''), Some (JString ''a'')] None)))
      (JString ''a'')"
    by (simp add: EnumType_new_def)
  have defined: "JString ''a'' \<noteq> JUndefined"
    by simp
  have one: "length (filter (\<lambda>v. IsStrictlyEqual v (JString ''a''))
      (Array_elements (acceptableValues (EnumType_new [None, Some (JString ''a'')] None)))) = 1"
    by (simp add: EnumType_new_def)
  have dense: "None \<notin> set (acceptableValues (EnumType_new [Some JUndefined] None))"
    by (simp add: EnumType_new_def)
  have one': "length (filter (\<lambda>v. IsStrictlyEqual v JUndefined)
      (Array_elements (acceptableValues (EnumType_new [Some JUndefined] None)))) = 1"
    by (simp add: EnumType_new_def)
  show ?thesis
    using twice defined one dense one'
      EnumType_exhaustivelyCheckConformity_iff
        [of "EnumType_new [Some (JString ''a''), Some (JString ''a'')] None" "JString ''a''"
          "JString ''a''"]
      EnumType_exhaustivelyCheckConformity_iff
        [of "EnumType_new [None, Some (JString ''a'')] None" "JString ''a''" "JString ''a''"]
      EnumType_exhaustivelyCheckConformity_iff
        [of "EnumType_new [Some JUndefined] None" "JString ''a''" JUndefined]
    by blast
qed

text \<open>
  C6. For every enumerated descriptor and every input \<open>x\<close>, the check on \<open>x\<close> is true if and
  only if some acceptable value, an element that the array holds, is strictly equal to
  \<open>x\<close>. Strict equality on objects is equality of references, not of contents: an object
  that is not itself in the list does not match, even when the list holds another object
  for which the heap has the same contents.
\<close>

theorem EnumType_checkConformity_iff:
  "(EnumType_checkConformity D x \<longleftrightarrow>
      (\<exists>v\<in>set (Array_elements (acceptableValues D)). IsStrictlyEqual v x)) \<and>
   ((h :: heap) r1 = h r2 \<and> JObject r1 \<in> set (Array_elements (acceptableValues D)) \<and>
    JObject r2 \<notin> set (Array_elements (acceptableValues D)) \<longrightarrow>
      \<not> EnumType_checkConformity D (JObject r2))"
proof -
  have "v = JObject r2" if "IsStrictlyEqual v (JObject r2)" for v
    using that by (cases v) simp_all
  then show ?thesis
    by (auto simp: EnumType_checkConformity_def Array_some_sparse_iff)
qed

theorem EnumType_checkConformity_iff_witness:
  "[0 \<mapsto> [(''k'', JNumber (Finite 1))], 1 \<mapsto> [(''k'', JNumber (Finite 1))]] (0::ref) =
   [0 \<mapsto> [(''k'', JNumber (Finite 1))], 1 \<mapsto> [(''k'', JNumber (Finite 1))]] 1 \<and>
   JObject 0 \<in> set (Array_elements (acceptableValues (EnumType_new [Some (JObject 0)] None))) \<and>
   JObject 1 \<notin> set (Array_elements (acceptableValues (EnumType_new [Some (JObject 0)] None))) \<and>
   \<not> EnumType_checkConformity (EnumType_new [Some (JObject 0)] None) (JObject 1) \<and>
   EnumType_checkConformity (EnumType_new [Some (JObject 0)] None) (JObject 0)"
proof -
  have h: "[0 \<mapsto> [(''k'', JNumber (Finite 1))], 1 \<mapsto> [(''k'', JNumber (Finite 1))]] (0::ref) =
     [0 \<mapsto> [(''k'', JNumber (Finite 1))], 1 \<mapsto> [(''k'', JNumber (Finite 1))]] 1 \<and>
     JObject 0 \<in> set (Array_elements (acceptableValues (EnumType_new [Some (JObject 0)] None))) \<and>
     JObject 1 \<notin> set (Array_elements (acceptableValues (EnumType_new [Some (JObject 0)] None)))"
    by (simp add: EnumType_new_def)
  have m: "\<exists>v\<in>set (Array_elements (acceptableValues (EnumType_new [Some (JObject 0)] None))).
      IsStrictlyEqual v (JObject 0)"
    by (simp add: EnumType_new_def)
  note t = EnumType_checkConformity_iff [of "EnumType_new [Some (JObject 0)] None" "JObject 0"
      "[0 \<mapsto> [(''k'', JNumber (Finite 1))], 1 \<mapsto> [(''k'', JNumber (Finite 1))]]" 0 1]
  from conjunct2 [OF t] h
  have n: "\<not> EnumType_checkConformity (EnumType_new [Some (JObject 0)] None) (JObject 1)"
    by (rule mp)
  from conjunct1 [OF t] m
  have c: "EnumType_checkConformity (EnumType_new [Some (JObject 0)] None) (JObject 0)"
    by (rule iffD2)
  from h n c show ?thesis by simp
qed

subsection \<open>Exhaustive conformity and conformity\<close>




end
